theory Spec2Isabelle
  imports Main
begin

section \<open>Python values\<close>

text \<open>
  The plain data that travels through \<^verbatim>\<open>eolic/remote.py\<close>: the raw target descriptors, which
  come from configuration (\<^verbatim>\<open>Settings.remote_targets\<close> is read from JSON, YAML, TOML or the
  environment), and the positional and keyword arguments of an emitted event. A dict is an
  association list with distinct string keys, read with \<open>map_of\<close>.
\<close>

datatype pyval =
    PNone
  | PInt int
  | PStr string
  | PList "pyval list"
  | PDict "(string \<times> pyval) list"

type_synonym pydict = "(string \<times> pyval) list"

text \<open>\<^verbatim>\<open>d.get(k)\<close> and \<^verbatim>\<open>d.get(k, default)\<close>.\<close>

definition dict_get_default :: "pydict \<Rightarrow> string \<Rightarrow> pyval \<Rightarrow> pyval" where
  "dict_get_default d k dflt = (case map_of d k of None \<Rightarrow> dflt | Some v \<Rightarrow> v)"

definition dict_get :: "pydict \<Rightarrow> string \<Rightarrow> pyval" where
  "dict_get d k = dict_get_default d k PNone"

text \<open>Truth value of an object, as tested by \<^verbatim>\<open>if target.get("queue_name"):\<close>.\<close>

fun truthy :: "pyval \<Rightarrow> bool" where
  "truthy PNone = False"
| "truthy (PInt i) = (i \<noteq> 0)"
| "truthy (PStr s) = (s \<noteq> [])"
| "truthy (PList xs) = (xs \<noteq> [])"
| "truthy (PDict d) = (d \<noteq> [])"

text \<open>
  \<^verbatim>\<open>==\<close> on plain data: by value, element by element for lists, and for dicts whatever the
  order of the keys (the same number of keys, and every key of the one bound to an equal
  value in the other).
\<close>

fun py_eq :: "pyval \<Rightarrow> pyval \<Rightarrow> bool"
  and py_eq_list :: "pyval list \<Rightarrow> pyval list \<Rightarrow> bool"
  and py_eq_items :: "(string \<times> pyval) list \<Rightarrow> (string \<times> pyval) list \<Rightarrow> bool" where
  "py_eq PNone y = (y = PNone)"
| "py_eq (PInt i) y = (y = PInt i)"
| "py_eq (PStr s) y = (y = PStr s)"
| "py_eq (PList xs) y = (case y of PList ys \<Rightarrow> py_eq_list xs ys | _ \<Rightarrow> False)"
| "py_eq (PDict a) y =
     (case y of PDict b \<Rightarrow> length a = length b \<and> py_eq_items a b | _ \<Rightarrow> False)"
| "py_eq_list [] ys = (ys = [])"
| "py_eq_list (x # xs) ys =
     (case ys of [] \<Rightarrow> False | y # ys' \<Rightarrow> py_eq x y \<and> py_eq_list xs ys')"
| "py_eq_items [] b = True"
| "py_eq_items (kv # a) b =
     ((case map_of b (fst kv) of None \<Rightarrow> False | Some w \<Rightarrow> py_eq (snd kv) w)
      \<and> py_eq_items a b)"

section \<open>Events\<close>

text \<open>
  The event passed to \<^verbatim>\<open>emit\<close> is any object. What the module asks of it is whether it is
  an \<^verbatim>\<open>Enum\<close> member (\<^verbatim>\<open>isinstance(event, Enum)\<close>), its \<^verbatim>\<open>.value\<close> if so, its \<^verbatim>\<open>str()\<close>, and
  whether it is \<^verbatim>\<open>in\<close> a list. \<open>Value v\<close> is an object that is no \<^verbatim>\<open>Enum\<close> member, a plain
  datum. \<open>EnumMember mixin cls name v\<close> is the member \<open>name\<close> of the \<^verbatim>\<open>Enum\<close> class \<open>cls\<close>, with
  \<^verbatim>\<open>.value\<close> \<open>v\<close> of any type; \<open>mixin\<close> tells whether the class mixes in a data type, as
  \<^verbatim>\<open>class Color(str, Enum)\<close> or \<^verbatim>\<open>IntEnum\<close> do: such a member is an instance of that type
  and compares as its value, while a member of a plain \<^verbatim>\<open>Enum\<close> is equal to itself only.
\<close>

datatype event =
    Value pyval
  | EnumMember bool string string pyval

fun event_eq :: "event \<Rightarrow> event \<Rightarrow> bool" where
  "event_eq (Value v) (Value w) = py_eq v w"
| "event_eq (Value v) (EnumMember mixin cls name w) = (mixin \<and> py_eq v w)"
| "event_eq (EnumMember mixin cls name v) (Value w) = (mixin \<and> py_eq v w)"
| "event_eq (EnumMember mixin cls name v) (EnumMember mixin' cls' name' w) =
     (if mixin \<and> mixin' then py_eq v w
      else if mixin \<or> mixin' then False
      else cls = cls' \<and> name = name')"

text \<open>\<^verbatim>\<open>x in xs\<close> for a list: some element is \<open>x\<close> or equal to \<open>x\<close>.\<close>

definition py_in :: "event \<Rightarrow> event list \<Rightarrow> bool" where
  "py_in x xs = (\<exists>e\<in>set xs. e = x \<or> event_eq e x)"

section \<open>Exceptions\<close>

text \<open>
  Every \<^verbatim>\<open>raise\<close> of the module is a value. \<open>TypeError\<close>, \<open>KeyError\<close> and
  \<open>NotImplementedError\<close> are raised by the module itself; \<open>PyException\<close> is the plain
  \<^verbatim>\<open>Exception("Celery Integration is not installed. ...")\<close>; \<open>ValidationError\<close> is what
  the pydantic model classes raise for a field that does not fit its declaration;
  \<open>TransportError\<close> stands for whatever \<^verbatim>\<open>requests.post\<close> or \<^verbatim>\<open>Celery.send_task\<close> raise.
\<close>

datatype error =
    TypeError
  | KeyError string
  | ValidationError
  | NotImplementedError
  | PyException
  | TransportError string

section \<open>The runtime the module runs in\<close>

text \<open>
  What \<^verbatim>\<open>remote.py\<close> uses without defining it is a parameter of the model:
  the member names of \<^verbatim>\<open>EventRemoteTargetType\<close> besides \<^verbatim>\<open>url\<close> and \<^verbatim>\<open>celery\<close> (the two the
  module names), the class defaults of \<^verbatim>\<open>EventRemoteCeleryTarget\<close>, the answer of
  \<^verbatim>\<open>is_module_installed("celery")\<close>, the builtin \<^verbatim>\<open>str\<close> on objects that are not strings,
  and the outcomes of the two transports.
\<close>

record http_request =
  url_of :: string
  json_of :: pyval
  headers_of :: pydict
  timeout_of :: nat

record task_call =
  task_app :: string
  task_name :: string
  task_args :: "pyval list"
  task_kwargs :: pydict
  task_queue :: string

record runtime =
  extra_types :: "string list"
  default_queue_name :: string
  default_function_name :: string
  celery_installed :: bool
  str_builtin :: "pyval \<Rightarrow> string"
  requests_post :: "http_request \<Rightarrow> error + nat"
  send_task :: "task_call \<Rightarrow> error + string"

section \<open>Targets\<close>

text \<open>
  Modelled from the spec: the enum \<^verbatim>\<open>EventRemoteTargetType\<close> is declared in
  \<^verbatim>\<open>eolic/model.py\<close>, which is not among the sources. The module names two of its members,
  \<^verbatim>\<open>url\<close> and \<^verbatim>\<open>celery\<close>; the registration input selects a kind out of "http-webhook,
  task-queue, ...", so any further member is \<open>member name\<close>, with its name listed in
  \<open>extra_types\<close>.
\<close>

datatype EventRemoteTargetType = url | celery | member string

text \<open>\<^verbatim>\<open>EventRemoteTargetType[name]\<close>: lookup of an enum member by name, \<^verbatim>\<open>KeyError\<close> if there is none.\<close>

definition EventRemoteTargetType_getitem :: "runtime \<Rightarrow> string \<Rightarrow> error + EventRemoteTargetType" where
  "EventRemoteTargetType_getitem rt name =
     (if name = ''url'' then Inr url
      else if name = ''celery'' then Inr celery
      else if name \<in> set (extra_types rt) then Inr (member name)
      else Inl (KeyError name))"

text \<open>
  Modelled from the spec: the classes \<^verbatim>\<open>EventRemoteTarget\<close>, \<^verbatim>\<open>EventRemoteURLTarget\<close> and
  \<^verbatim>\<open>EventRemoteCeleryTarget\<close> are declared in \<^verbatim>\<open>eolic/model.py\<close>, which is not among the
  sources. A target has a kind and an optional event filter; the HTTP kind adds an address
  and headers, the queue kind an address, a queue name and a function name; a target of
  any other kind keeps the fields of its descriptor. The fields read by \<^verbatim>\<open>remote.py\<close> are
  \<^verbatim>\<open>type\<close>, \<^verbatim>\<open>address\<close>, \<^verbatim>\<open>headers\<close>, \<^verbatim>\<open>events\<close>, \<^verbatim>\<open>queue_name\<close> and \<^verbatim>\<open>function_name\<close>.
\<close>

datatype target =
    EventRemoteURLTarget
      (type: EventRemoteTargetType) (address: string) (headers: pydict) (events: "event list option")
  | EventRemoteCeleryTarget
      (type: EventRemoteTargetType) (address: string) (events: "event list option")
      (queue_name: string) (function_name: string)
  | EventRemoteTarget
      (type: EventRemoteTargetType) (fields: pydict) (events: "event list option")

text \<open>
  Modelled from the spec: the \<open>events\<close> field of the target classes (\<^verbatim>\<open>eolic/model.py\<close>, not
  among the sources). It is an optional set of event names; a malformed or absent filter is
  not an error but means "deliver to all".
\<close>

definition events_field :: "pyval \<Rightarrow> event list option" where
  "events_field v = (case v of PList xs \<Rightarrow> Some (map Value xs) | _ \<Rightarrow> None)"

text \<open>
  Modelled from the spec: the constructor of \<^verbatim>\<open>EventRemoteURLTarget\<close> (\<^verbatim>\<open>eolic/model.py\<close>,
  not among the sources). \<open>address\<close> is required and \<open>headers\<close> is a mapping: a value that
  is not a string, respectively not a dict, is refused with \<open>ValidationError\<close>. Whether an
  empty address is refused as well is left out: nothing in \<^verbatim>\<open>remote.py\<close> looks at it.
\<close>

definition new_EventRemoteURLTarget ::
  "EventRemoteTargetType \<Rightarrow> pyval \<Rightarrow> pyval \<Rightarrow> pyval \<Rightarrow> error + target" where
  "new_EventRemoteURLTarget ty addr hdrs evs =
     (case addr of
        PStr a \<Rightarrow>
          (case hdrs of
             PDict h \<Rightarrow> Inr (EventRemoteURLTarget ty a h (events_field evs))
           | _ \<Rightarrow> Inl ValidationError)
      | _ \<Rightarrow> Inl ValidationError)"

text \<open>
  Modelled from the spec: an optional string field of \<^verbatim>\<open>EventRemoteCeleryTarget\<close> with a
  class default (\<^verbatim>\<open>eolic/model.py\<close>, not among the sources): the transport default when no
  value is passed, the value when it is a string.
\<close>

definition string_field :: "string \<Rightarrow> pyval option \<Rightarrow> error + string" where
  "string_field dflt v =
     (case v of None \<Rightarrow> Inr dflt | Some (PStr s) \<Rightarrow> Inr s | Some _ \<Rightarrow> Inl ValidationError)"

text \<open>
  Modelled from the spec: the constructor of \<^verbatim>\<open>EventRemoteCeleryTarget\<close> (\<^verbatim>\<open>eolic/model.py\<close>,
  not among the sources). \<open>address\<close>, the broker connection string, is required;
  \<open>queue_name\<close> and \<open>function_name\<close> are optional and take the transport default when
  absent.
\<close>

definition new_EventRemoteCeleryTarget ::
  "runtime \<Rightarrow> EventRemoteTargetType \<Rightarrow> pyval \<Rightarrow> pyval \<Rightarrow> pyval option \<Rightarrow> pyval option \<Rightarrow> error + target" where
  "new_EventRemoteCeleryTarget rt ty addr evs qn fn =
     (case addr of
        PStr a \<Rightarrow>
          (case string_field (default_queue_name rt) qn of
             Inl e \<Rightarrow> Inl e
           | Inr q \<Rightarrow>
               (case string_field (default_function_name rt) fn of
                  Inl e \<Rightarrow> Inl e
                | Inr f \<Rightarrow> Inr (EventRemoteCeleryTarget ty a (events_field evs) q f)))
      | _ \<Rightarrow> Inl ValidationError)"

text \<open>
  Modelled from the spec: the constructor of the base class \<^verbatim>\<open>EventRemoteTarget\<close>
  (\<^verbatim>\<open>eolic/model.py\<close>, not among the sources), called as \<^verbatim>\<open>EventRemoteTarget(**target)\<close>: the
  fields of the descriptor are passed through as a generic target.
\<close>

definition new_EventRemoteTarget :: "EventRemoteTargetType \<Rightarrow> pydict \<Rightarrow> error + target" where
  "new_EventRemoteTarget ty d = Inr (EventRemoteTarget ty d (events_field (dict_get d ''events'')))"

section \<open>Parsing a target\<close>

text \<open>
  \<^verbatim>\<open>EventRemoteTargetHandler._parse_target\<close>, in the order of the source: a \<^verbatim>\<open>str\<close> is
  rewritten to the url descriptor; anything that is not a \<^verbatim>\<open>dict\<close> raises \<^verbatim>\<open>TypeError\<close>;
  a \<^verbatim>\<open>type\<close> that is not a \<^verbatim>\<open>str\<close> raises \<^verbatim>\<open>TypeError\<close>; the enum lookup raises
  \<^verbatim>\<open>KeyError\<close>; the url branch reads \<^verbatim>\<open>target["address"]\<close> (\<^verbatim>\<open>KeyError\<close> when missing), the
  celery branch reads every field with \<^verbatim>\<open>get\<close> and passes \<^verbatim>\<open>queue_name\<close> and
  \<^verbatim>\<open>function_name\<close> on only when they are truthy; any other member goes to
  \<^verbatim>\<open>EventRemoteTarget(**target)\<close>.
\<close>

definition str_shorthand :: "pyval \<Rightarrow> pyval" where
  "str_shorthand target =
     (case target of
        PStr s \<Rightarrow> PDict [(''type'', PStr ''url''), (''address'', PStr s)]
      | _ \<Rightarrow> target)"

definition truthy_get :: "pydict \<Rightarrow> string \<Rightarrow> pyval option" where
  "truthy_get d k = (if truthy (dict_get d k) then Some (dict_get d k) else None)"

definition parse_typed :: "runtime \<Rightarrow> pydict \<Rightarrow> EventRemoteTargetType \<Rightarrow> error + target" where
  "parse_typed rt d ty =
     (case ty of
        url \<Rightarrow>
          (case map_of d ''address'' of
             None \<Rightarrow> Inl (KeyError ''address'')
           | Some a \<Rightarrow>
               new_EventRemoteURLTarget ty a (dict_get_default d ''headers'' (PDict []))
                 (dict_get d ''events''))
      | celery \<Rightarrow>
          new_EventRemoteCeleryTarget rt ty (dict_get d ''address'') (dict_get d ''events'')
            (truthy_get d ''queue_name'') (truthy_get d ''function_name'')
      | member n \<Rightarrow> new_EventRemoteTarget ty d)"

definition parse_target :: "runtime \<Rightarrow> pyval \<Rightarrow> error + target" where
  "parse_target rt target0 =
     (case str_shorthand target0 of
        PDict d \<Rightarrow>
          (case dict_get d ''type'' of
             PStr target_type \<Rightarrow>
               (case EventRemoteTargetType_getitem rt target_type of
                  Inl e \<Rightarrow> Inl e
                | Inr ty \<Rightarrow> parse_typed rt d ty)
           | _ \<Rightarrow> Inl TypeError)
      | _ \<Rightarrow> Inl TypeError)"

section \<open>Dispatchers\<close>

text \<open>
  A dispatcher holds its target (\<^verbatim>\<open>self.target\<close>). \<^verbatim>\<open>EventRemoteDispatcherFactory.create\<close>
  picks the dispatcher class by \<^verbatim>\<open>isinstance\<close> and raises \<^verbatim>\<open>NotImplementedError\<close> for a
  target of neither subclass. Building the celery dispatcher runs its \<^verbatim>\<open>__init__\<close>, which
  raises the plain \<^verbatim>\<open>Exception\<close> when the celery module is not installed.
\<close>

datatype dispatcher =
    EventRemoteURLDispatcher target
  | EventRemoteCeleryDispatcher target

definition EventRemoteCeleryDispatcher_init :: "runtime \<Rightarrow> target \<Rightarrow> error + dispatcher" where
  "EventRemoteCeleryDispatcher_init rt t =
     (if \<not> celery_installed rt then Inl PyException else Inr (EventRemoteCeleryDispatcher t))"

definition create :: "runtime \<Rightarrow> target \<Rightarrow> error + dispatcher" where
  "create rt t =
     (case t of
        EventRemoteURLTarget ty a h evs \<Rightarrow> Inr (EventRemoteURLDispatcher t)
      | EventRemoteCeleryTarget ty a evs q f \<Rightarrow> EventRemoteCeleryDispatcher_init rt t
      | EventRemoteTarget ty d evs \<Rightarrow> Inl NotImplementedError)"

text \<open>
  \<^verbatim>\<open>event_value = str(event)\<close>, replaced by \<^verbatim>\<open>event.value\<close> when the event is an \<^verbatim>\<open>Enum\<close>
  member: the value of the member as it is, of whatever type, with no \<^verbatim>\<open>str()\<close> around it.
  \<^verbatim>\<open>str\<close> of a string is the string itself.
\<close>

definition py_str :: "runtime \<Rightarrow> pyval \<Rightarrow> string" where
  "py_str rt v = (case v of PStr s \<Rightarrow> s | _ \<Rightarrow> str_builtin rt v)"

definition event_value :: "runtime \<Rightarrow> event \<Rightarrow> pyval" where
  "event_value rt event =
     (case event of
        EnumMember mixin cls name v \<Rightarrow> v
      | Value v \<Rightarrow> PStr (py_str rt v))"

text \<open>
  Modelled from the spec: \<^verbatim>\<open>EventDTO\<close> is declared in \<^verbatim>\<open>eolic/model.py\<close>, which is not among
  the sources. The envelope has the fields \<open>event\<close>, \<open>args\<close> (the ordered positional
  values) and \<open>kwargs\<close> (the mapping of named values); \<^verbatim>\<open>model_dump()\<close> returns them as a
  dict. The envelope calls \<open>event\<close> a string; what the class does with an event value that
  is none is not among the sources, and the value is kept as \<^verbatim>\<open>_build_request\<close> passes it.
\<close>

definition EventDTO_model_dump :: "pyval \<Rightarrow> pyval list \<Rightarrow> pydict \<Rightarrow> pyval" where
  "EventDTO_model_dump ev args kwargs =
     PDict [(''event'', ev), (''args'', PList args), (''kwargs'', PDict kwargs)]"

definition build_request :: "runtime \<Rightarrow> event \<Rightarrow> pyval list \<Rightarrow> pydict \<Rightarrow> pyval" where
  "build_request rt event args kwargs = EventDTO_model_dump (event_value rt event) args kwargs"

text \<open>
  What a dispatch does to the outside world is the list of transport calls it makes; what
  it returns is \<^verbatim>\<open>None\<close>, unless the transport call raises.
\<close>

datatype effect = HttpPost http_request | SendTask task_call

text \<open>
  The celery dispatcher sends through \<^verbatim>\<open>self.celery\<close>, which its \<^verbatim>\<open>__init__\<close> builds as
  \<^verbatim>\<open>Celery(self.target.address)\<close>: the address is the first positional argument of
  \<^verbatim>\<open>Celery\<close>, the name of the app, and no broker is set. \<open>task_app\<close> records that
  argument.
\<close>

definition url_dispatch ::
  "runtime \<Rightarrow> target \<Rightarrow> event \<Rightarrow> pyval list \<Rightarrow> pydict \<Rightarrow> effect list \<times> (error + unit)" where
  "url_dispatch rt t event args kwargs =
     (let req = \<lparr>url_of = address t,
                 json_of = build_request rt event args kwargs,
                 headers_of = headers t,
                 timeout_of = 10\<rparr>
      in ([HttpPost req],
          case requests_post rt req of Inl e \<Rightarrow> Inl e | Inr status \<Rightarrow> Inr ()))"

definition celery_dispatch ::
  "runtime \<Rightarrow> target \<Rightarrow> event \<Rightarrow> pyval list \<Rightarrow> pydict \<Rightarrow> effect list \<times> (error + unit)" where
  "celery_dispatch rt t event args kwargs =
     (let call = \<lparr>task_app = address t,
                  task_name = function_name t,
                  task_args = event_value rt event # args,
                  task_kwargs = kwargs,
                  task_queue = queue_name t\<rparr>
      in ([SendTask call],
          case send_task rt call of Inl e \<Rightarrow> Inl e | Inr task \<Rightarrow> Inr ()))"

definition dispatch ::
  "runtime \<Rightarrow> dispatcher \<Rightarrow> event \<Rightarrow> pyval list \<Rightarrow> pydict \<Rightarrow> effect list \<times> (error + unit)" where
  "dispatch rt d event args kwargs =
     (case d of
        EventRemoteURLDispatcher t \<Rightarrow> url_dispatch rt t event args kwargs
      | EventRemoteCeleryDispatcher t \<Rightarrow> celery_dispatch rt t event args kwargs)"

section \<open>Futures\<close>

text \<open>
  \<^verbatim>\<open>executor.submit(dispatcher.dispatch, event, *args, **kwargs)\<close> returns a future for
  that call. \<^verbatim>\<open>future.result()\<close> waits for the call and returns its value or raises what
  the call raised.
\<close>

record future =
  fut_dispatcher :: dispatcher
  fut_event :: event
  fut_args :: "pyval list"
  fut_kwargs :: pydict

definition submit :: "dispatcher \<Rightarrow> event \<Rightarrow> pyval list \<Rightarrow> pydict \<Rightarrow> future" where
  "submit d event args kwargs =
     \<lparr>fut_dispatcher = d, fut_event = event, fut_args = args, fut_kwargs = kwargs\<rparr>"

definition result :: "runtime \<Rightarrow> future \<Rightarrow> error + unit" where
  "result rt f = snd (dispatch rt (fut_dispatcher f) (fut_event f) (fut_args f) (fut_kwargs f))"


primrec target_of :: "dispatcher \<Rightarrow> target" where
  "target_of (EventRemoteURLDispatcher t) = t"
| "target_of (EventRemoteCeleryDispatcher t) = t"

definition fut_target :: "future \<Rightarrow> target" where
  "fut_target f = target_of (fut_dispatcher f)"

section \<open>The handler\<close>

text \<open>
  The class body of \<^verbatim>\<open>EventRemoteTargetHandler\<close> binds two class attributes,
  \<^verbatim>\<open>targets = []\<close> and \<^verbatim>\<open>futures = []\<close>. \<^verbatim>\<open>__init__\<close> binds two instance attributes,
  \<^verbatim>\<open>self.executor\<close> and \<^verbatim>\<open>self.futures = []\<close>, and never \<^verbatim>\<open>self.targets\<close>. So in every
  method \<^verbatim>\<open>self.futures\<close> is the list of the instance, and \<^verbatim>\<open>self.targets\<close>, found by
  attribute lookup on the class, is the one list of the class: \<^verbatim>\<open>append\<close> and \<^verbatim>\<open>clear\<close>
  mutate that list in place. A method therefore takes and returns the pair of the class
  attributes and the attributes of \<^verbatim>\<open>self\<close>.
\<close>

record handler_class =
  cls_targets :: "target list"
  cls_futures :: "future list"

record handler =
  executor :: nat
  futures :: "future list"

type_synonym hstate = "handler_class \<times> handler"

definition class_body :: handler_class where
  "class_body = \<lparr>cls_targets = [], cls_futures = []\<rparr>"

definition init :: handler where
  "init = \<lparr>executor = 10, futures = []\<rparr>"

definition targets :: "hstate \<Rightarrow> target list" where
  "targets st = cls_targets (fst st)"

definition register :: "runtime \<Rightarrow> pyval \<Rightarrow> hstate \<Rightarrow> (error + unit) \<times> hstate" where
  "register rt raw st =
     (case parse_target rt raw of
        Inl e \<Rightarrow> (Inl e, st)
      | Inr t \<Rightarrow> (Inr (), ((fst st)\<lparr>cls_targets := cls_targets (fst st) @ [t]\<rparr>, snd st)))"

definition clear :: "hstate \<Rightarrow> hstate" where
  "clear st = ((fst st)\<lparr>cls_targets := []\<rparr>, (snd st)\<lparr>futures := []\<rparr>)"

text \<open>The filter of \<^verbatim>\<open>emit\<close>: \<^verbatim>\<open>target.events is None or event in target.events\<close>.\<close>

definition wants :: "event \<Rightarrow> target \<Rightarrow> bool" where
  "wants event t = (case events t of None \<Rightarrow> True | Some evs \<Rightarrow> py_in event evs)"

text \<open>
  The loop of \<^verbatim>\<open>emit\<close> over \<^verbatim>\<open>self.targets\<close>. The dispatcher is created in the caller's
  thread, before \<^verbatim>\<open>submit\<close>: when \<^verbatim>\<open>create\<close> raises, the loop is left with the futures
  appended so far.
\<close>

fun emit_loop ::
  "runtime \<Rightarrow> event \<Rightarrow> pyval list \<Rightarrow> pydict \<Rightarrow> target list \<Rightarrow> future list
     \<Rightarrow> (error + unit) \<times> future list" where
  "emit_loop rt event args kwargs [] futs = (Inr (), futs)"
| "emit_loop rt event args kwargs (t # ts) futs =
     (if wants event t then
        (case create rt t of
           Inl e \<Rightarrow> (Inl e, futs)
         | Inr d \<Rightarrow> emit_loop rt event args kwargs ts (futs @ [submit d event args kwargs]))
      else emit_loop rt event args kwargs ts futs)"

definition emit ::
  "runtime \<Rightarrow> event \<Rightarrow> pyval list \<Rightarrow> pydict \<Rightarrow> hstate \<Rightarrow> (error + unit) \<times> hstate" where
  "emit rt event args kwargs st =
     (case emit_loop rt event args kwargs (targets st) (futures (snd st)) of
        (r, futs) \<Rightarrow> (r, (fst st, (snd st)\<lparr>futures := futs\<rparr>)))"

text \<open>
  The loop of \<^verbatim>\<open>wait_for_all\<close>: \<^verbatim>\<open>future.result()\<close> on each future in turn, left at the
  first one that raises. Besides the outcome it returns the futures it has waited for.
\<close>

fun wait_loop :: "runtime \<Rightarrow> future list \<Rightarrow> future list \<times> (error + unit)" where
  "wait_loop rt [] = ([], Inr ())"
| "wait_loop rt (f # fs) =
     (case result rt f of
        Inl e \<Rightarrow> ([f], Inl e)
      | Inr u \<Rightarrow> (case wait_loop rt fs of (waited, r) \<Rightarrow> (f # waited, r)))"

definition wait_for_all :: "runtime \<Rightarrow> hstate \<Rightarrow> (error + unit) \<times> hstate" where
  "wait_for_all rt st =
     (case snd (wait_loop rt (futures (snd st))) of
        Inl e \<Rightarrow> (Inl e, st)
      | Inr u \<Rightarrow> (Inr (), (fst st, (snd st)\<lparr>futures := []\<rparr>)))"

section \<open>Example configuration\<close>

text \<open>
  A concrete runtime and concrete targets, for evaluating the handler on inputs: only the two
  target types the module names, the celery module installed, a web hook at
  \<^verbatim>\<open>http://a.test\<close> that cannot be reached and one at \<^verbatim>\<open>http://b.test\<close> that answers 200.
  Every event of the examples is a string or an \<^verbatim>\<open>Enum\<close> member, so \<open>str_builtin\<close> is never
  asked and is left a constant.
\<close>

definition example_runtime :: runtime where
  "example_runtime =
     \<lparr>extra_types = [],
      default_queue_name = ''default-queue'',
      default_function_name = ''default-function'',
      celery_installed = True,
      str_builtin = (\<lambda>v. ''object''),
      requests_post =
        (\<lambda>r. if url_of r = ''http://a.test'' then Inl (TransportError ''unreachable'')
             else Inr 200),
      send_task = (\<lambda>c. Inr ''task-id'')\<rparr>"

definition target_a :: target where
  "target_a = EventRemoteURLTarget url ''http://a.test'' [] None"

definition target_b :: target where
  "target_b = EventRemoteURLTarget url ''http://b.test'' [] (Some [Value (PStr ''order.created'')])"

definition target_q :: target where
  "target_q =
     EventRemoteCeleryTarget celery ''redis://broker'' None ''default-queue'' ''default-function''"

definition future_a :: future where
  "future_a = submit (EventRemoteURLDispatcher target_a) (Value (PStr ''order.created'')) [] []"

definition future_b :: future where
  "future_b = submit (EventRemoteURLDispatcher target_b) (Value (PStr ''order.created'')) [] []"

section \<open>Facts about the loops\<close>

lemma parse_target_PDict:
  "parse_target rt (PDict d) =
     (case dict_get d ''type'' of
        PStr s \<Rightarrow>
          (case EventRemoteTargetType_getitem rt s of
             Inl e \<Rightarrow> Inl e
           | Inr ty \<Rightarrow> parse_typed rt d ty)
      | _ \<Rightarrow> Inl TypeError)"
  by (simp add: parse_target_def str_shorthand_def)

lemma emit_loop_append:
  "emit_loop rt ev args kw (xs @ ys) futs =
     (case emit_loop rt ev args kw xs futs of
        (Inl e, futs') \<Rightarrow> (Inl e, futs')
      | (Inr u, futs') \<Rightarrow> emit_loop rt ev args kw ys futs')"
  by (induction xs arbitrary: futs) (auto split: sum.splits prod.splits)

lemma emit_loop_all_created:
  "\<forall>p\<in>set xs. wants ev p \<longrightarrow> \<not> isl (create rt p) \<Longrightarrow>
   emit_loop rt ev args kw xs futs =
     (Inr (), futs @ map (\<lambda>p. submit (projr (create rt p)) ev args kw) (filter (wants ev) xs))"
  by (induction xs arbitrary: futs) (auto split: sum.splits)

lemma emit_loop_ok_created:
  "fst (emit_loop rt ev args kw xs futs) = Inr () \<Longrightarrow>
   \<forall>p\<in>set xs. wants ev p \<longrightarrow> \<not> isl (create rt p)"
  by (induction xs arbitrary: futs) (auto split: sum.splits if_splits)

lemma emit_loop_skip:
  "\<not> wants ev t \<Longrightarrow>
   emit_loop rt ev args kw (pre @ t # post) futs = emit_loop rt ev args kw (pre @ post) futs"
  by (simp add: emit_loop_append split: prod.splits sum.splits)

lemma create_transport_irrelevant:
  "create (rt\<lparr>requests_post := rp, send_task := sk\<rparr>) t = create rt t"
  by (simp add: create_def EventRemoteCeleryDispatcher_init_def split: target.splits)

lemma emit_loop_transport_irrelevant:
  "emit_loop (rt\<lparr>requests_post := rp, send_task := sk\<rparr>) ev args kw xs futs
     = emit_loop rt ev args kw xs futs"
  by (induction xs arbitrary: futs) (auto simp: create_transport_irrelevant split: sum.splits)

lemma create_error:
  "create rt t = Inl e \<Longrightarrow> e = NotImplementedError \<or> e = PyException"
  by (auto simp: create_def EventRemoteCeleryDispatcher_init_def split: target.splits if_splits)

lemma wait_loop_all_ok:
  "\<forall>f\<in>set fs. result rt f = Inr () \<Longrightarrow> wait_loop rt fs = (fs, Inr ())"
  by (induction fs) auto

lemma wait_loop_first_error:
  "\<forall>g\<in>set pre. result rt g = Inr () \<Longrightarrow> result rt f = Inl e \<Longrightarrow>
   wait_loop rt (pre @ f # post) = (pre @ [f], Inl e)"
  by (induction pre) auto

lemma wait_for_all_ok:
  "\<forall>f\<in>set (futures (snd st)). result rt f = Inr () \<Longrightarrow>
   wait_for_all rt st = (Inr (), (fst st, (snd st)\<lparr>futures := []\<rparr>))"
  by (simp add: wait_for_all_def wait_loop_all_ok)

lemma wait_for_all_error:
  "futures (snd st) = pre @ f # post \<Longrightarrow> \<forall>g\<in>set pre. result rt g = Inr () \<Longrightarrow>
   result rt f = Inl e \<Longrightarrow> wait_for_all rt st = (Inl e, st)"
  by (simp add: wait_for_all_def wait_loop_first_error)

lemma example_create [simp]:
  "create rt target_a = Inr (EventRemoteURLDispatcher target_a)"
  "create rt target_b = Inr (EventRemoteURLDispatcher target_b)"
  "create rt target_q =
     (if celery_installed rt then Inr (EventRemoteCeleryDispatcher target_q) else Inl PyException)"
  by (simp_all add: create_def target_a_def target_b_def target_q_def
      EventRemoteCeleryDispatcher_init_def)

lemma example_wants [simp]:
  "wants ev target_a"
  "wants ev target_q"
  "wants (Value (PStr s)) target_b = (s = ''order.created'')"
  "wants (EnumMember True cls name (PStr s)) target_b = (s = ''order.created'')"
  "wants (EnumMember False cls name v) target_b = False"
  by (auto simp: wants_def py_in_def target_a_def target_b_def target_q_def)

lemma example_result:
  "result example_runtime future_a = Inl (TransportError ''unreachable'')"
  "result example_runtime future_b = Inr ()"
  by (simp_all add: result_def future_a_def future_b_def submit_def dispatch_def url_dispatch_def
      Let_def target_a_def target_b_def example_runtime_def)

section \<open>Parsing and registration\<close>

text \<open>
  The names of the exceptions are those of the module. What the specification calls
  \<open>InvalidTargetError\<close> is the family raised while a target is parsed:
  \<open>TypeError\<close>, \<open>KeyError\<close> and the \<open>ValidationError\<close> of the target classes.
\<close>

text \<open>
  Claim C5. A descriptor whose \<^verbatim>\<open>type\<close> is a string that names no member of
  \<^verbatim>\<open>EventRemoteTargetType\<close> makes \<^verbatim>\<open>register\<close> raise at once (the \<^verbatim>\<open>KeyError\<close> of the enum
  lookup), and nothing is registered: the state is the one before the call.
\<close>

theorem register_unknown_type_raises:
  assumes "dict_get d ''type'' = PStr s"
    and "s \<noteq> ''url''" and "s \<noteq> ''celery''" and "s \<notin> set (extra_types rt)"
  shows "register rt (PDict d) st = (Inl (KeyError s), st)"
  using assms by (simp add: register_def parse_target_PDict EventRemoteTargetType_getitem_def)

theorem register_unknown_type_raises_witness:
  "register example_runtime
       (PDict [(''type'', PStr ''unknown-kind''), (''address'', PStr ''x'')]) (class_body, init)
     = (Inl (KeyError ''unknown-kind''), (class_body, init))"
  using register_unknown_type_raises
      [of "[(''type'', PStr ''unknown-kind''), (''address'', PStr ''x'')]"
        "''unknown-kind''" example_runtime "(class_body, init)"]
  by (simp add: dict_get_def dict_get_default_def example_runtime_def)

text \<open>
  Claim C6, as stated, fails: a descriptor whose \<^verbatim>\<open>type\<close> names no member of the enum is
  rejected by the enum lookup and never reaches \<^verbatim>\<open>EventRemoteTarget(**target)\<close>.
\<close>

theorem parse_target_unknown_kind_rejected:
  "parse_target example_runtime (PDict [(''type'', PStr ''unknown-kind''), (''extra'', PInt 1)])
     = Inl (KeyError ''unknown-kind'')"
  by (simp add: parse_target_PDict dict_get_def dict_get_default_def
      EventRemoteTargetType_getitem_def example_runtime_def)

text \<open>
  Claim C6, amended. A descriptor whose \<^verbatim>\<open>type\<close> is a string other than \<^verbatim>\<open>url\<close> and
  \<^verbatim>\<open>celery\<close> is parsed to a generic target holding the fields of the descriptor exactly when
  that string names a member of \<^verbatim>\<open>EventRemoteTargetType\<close>; otherwise it is rejected with
  \<^verbatim>\<open>KeyError\<close>.
\<close>

theorem parse_target_other_member_generic:
  assumes "dict_get d ''type'' = PStr s" and "s \<noteq> ''url''" and "s \<noteq> ''celery''"
  shows "parse_target rt (PDict d) =
     (if s \<in> set (extra_types rt)
      then Inr (EventRemoteTarget (member s) d (events_field (dict_get d ''events'')))
      else Inl (KeyError s))"
  using assms
  by (simp add: parse_target_PDict EventRemoteTargetType_getitem_def parse_typed_def
      new_EventRemoteTarget_def)

theorem parse_target_other_member_generic_witness:
  "parse_target (example_runtime\<lparr>extra_types := [''kafka'']\<rparr>)
       (PDict [(''type'', PStr ''kafka''), (''topic'', PStr ''orders'')])
     = Inr (EventRemoteTarget (member ''kafka'')
          [(''type'', PStr ''kafka''), (''topic'', PStr ''orders'')] None)
   \<and> parse_target example_runtime (PDict [(''type'', PStr ''kafka''), (''topic'', PStr ''orders'')])
     = Inl (KeyError ''kafka'')"
  using parse_target_other_member_generic
      [of "[(''type'', PStr ''kafka''), (''topic'', PStr ''orders'')]"
        "''kafka''" "example_runtime\<lparr>extra_types := [''kafka'']\<rparr>"]
    parse_target_other_member_generic
      [of "[(''type'', PStr ''kafka''), (''topic'', PStr ''orders'')]"
        "''kafka''" example_runtime]
  by (simp add: dict_get_def dict_get_default_def events_field_def example_runtime_def)

text \<open>
  Claim C7. Parsing fails, and yields no target, on a raw input that is neither a string
  nor a dict (\<^verbatim>\<open>TypeError\<close>), on a descriptor whose \<^verbatim>\<open>type\<close> is missing or not a string
  (\<^verbatim>\<open>TypeError\<close>), on a url descriptor without \<^verbatim>\<open>address\<close> (the \<^verbatim>\<open>KeyError\<close> of
  \<^verbatim>\<open>target["address"]\<close>), and on a celery descriptor without \<^verbatim>\<open>address\<close> (there the
  module reads \<^verbatim>\<open>target.get("address")\<close>, and it is the target class that refuses
  \<^verbatim>\<open>None\<close> for its required field).
\<close>

theorem parse_target_rejects_malformed:
  "((\<forall>s. raw \<noteq> PStr s) \<and> (\<forall>d. raw \<noteq> PDict d) \<longrightarrow> parse_target rt raw = Inl TypeError)
   \<and> ((\<forall>s. dict_get d ''type'' \<noteq> PStr s) \<longrightarrow> parse_target rt (PDict d) = Inl TypeError)
   \<and> (dict_get d ''type'' = PStr ''url'' \<and> map_of d ''address'' = None
        \<longrightarrow> parse_target rt (PDict d) = Inl (KeyError ''address''))
   \<and> (dict_get d ''type'' = PStr ''celery'' \<and> map_of d ''address'' = None
        \<longrightarrow> parse_target rt (PDict d) = Inl ValidationError)"
proof (intro conjI impI)
  assume "(\<forall>s. raw \<noteq> PStr s) \<and> (\<forall>d. raw \<noteq> PDict d)"
  then show "parse_target rt raw = Inl TypeError"
    by (cases raw) (simp_all add: parse_target_def str_shorthand_def)
next
  assume "\<forall>s. dict_get d ''type'' \<noteq> PStr s"
  then show "parse_target rt (PDict d) = Inl TypeError"
    by (cases "dict_get d ''type''") (simp_all add: parse_target_PDict)
next
  assume "dict_get d ''type'' = PStr ''url'' \<and> map_of d ''address'' = None"
  then show "parse_target rt (PDict d) = Inl (KeyError ''address'')"
    by (simp add: parse_target_PDict EventRemoteTargetType_getitem_def parse_typed_def)
next
  assume "dict_get d ''type'' = PStr ''celery'' \<and> map_of d ''address'' = None"
  then show "parse_target rt (PDict d) = Inl ValidationError"
    by (simp add: parse_target_PDict EventRemoteTargetType_getitem_def parse_typed_def
        new_EventRemoteCeleryTarget_def dict_get_def dict_get_default_def)
qed

theorem parse_target_rejects_malformed_witness:
  "parse_target example_runtime (PInt 3) = Inl TypeError
   \<and> parse_target example_runtime (PDict [(''address'', PStr ''http://a.test'')]) = Inl TypeError
   \<and> parse_target example_runtime
        (PDict [(''type'', PInt 1), (''address'', PStr ''http://a.test'')]) = Inl TypeError
   \<and> parse_target example_runtime (PDict [(''type'', PStr ''url'')]) = Inl (KeyError ''address'')
   \<and> parse_target example_runtime (PDict [(''type'', PStr ''celery'')]) = Inl ValidationError"
  using parse_target_rejects_malformed
      [where raw = "PInt 3" and d = "[(''address'', PStr ''http://a.test'')]"
         and rt = example_runtime]
    parse_target_rejects_malformed
      [where raw = "PInt 3" and d = "[(''type'', PInt 1), (''address'', PStr ''http://a.test'')]"
         and rt = example_runtime]
    parse_target_rejects_malformed
      [where raw = "PInt 3" and d = "[(''type'', PStr ''url'')]" and rt = example_runtime]
    parse_target_rejects_malformed
      [where raw = "PInt 3" and d = "[(''type'', PStr ''celery'')]" and rt = example_runtime]
  by (simp add: dict_get_def dict_get_default_def)

text \<open>
  Claim C8. For every string \<open>s\<close>, the string and the descriptor
  \<^verbatim>\<open>{"type": "url", "address": s}\<close> parse to the same url target, whose address is \<open>s\<close>,
  with no headers and no event filter; so registering the one is registering the other.
\<close>

theorem str_target_is_url_descriptor:
  "parse_target rt (PStr s) = Inr (EventRemoteURLTarget url s [] None)
   \<and> parse_target rt (PDict [(''type'', PStr ''url''), (''address'', PStr s)])
       = Inr (EventRemoteURLTarget url s [] None)
   \<and> parse_target rt (PDict [(''address'', PStr s), (''type'', PStr ''url'')])
       = Inr (EventRemoteURLTarget url s [] None)
   \<and> register rt (PStr s) st
       = register rt (PDict [(''type'', PStr ''url''), (''address'', PStr s)]) st"
  by (simp add: register_def parse_target_def str_shorthand_def dict_get_def dict_get_default_def
      EventRemoteTargetType_getitem_def parse_typed_def new_EventRemoteURLTarget_def
      events_field_def)

section \<open>The two transports\<close>



text \<open>
  Claim C10, as stated, fails: what is put in front of the positional arguments is not
  always a string. For a member of an \<^verbatim>\<open>Enum\<close> whose values are integers, \<^verbatim>\<open>dispatch\<close>
  takes \<^verbatim>\<open>event.value\<close> as it is, and the task gets the integer.
\<close>

theorem celery_dispatch_enum_value_uncoerced:
  "fst (dispatch example_runtime (EventRemoteCeleryDispatcher target_q)
          (EnumMember False ''Priority'' ''HIGH'' (PInt 1)) [PInt 7] [(''id'', PInt 1)])
     = [SendTask \<lparr>task_app = ''redis://broker'',
                  task_name = ''default-function'',
                  task_args = [PInt 1, PInt 7],
                  task_kwargs = [(''id'', PInt 1)],
                  task_queue = ''default-queue''\<rparr>]"
  by (simp add: dispatch_def celery_dispatch_def Let_def event_value_def target_q_def)

text \<open>
  Claim C10, amended. One dispatch of the celery dispatcher sends one task, through the
  \<^verbatim>\<open>Celery\<close> object its \<^verbatim>\<open>__init__\<close> built from the address of the target: its name is the
  \<^verbatim>\<open>function_name\<close> of the target and its queue the \<^verbatim>\<open>queue_name\<close> of the target (each the
  configured value, or the default of the target class when none was configured), its
  positional arguments are the event value followed by the original ones, and its keyword
  arguments are the original ones. The event value is \<^verbatim>\<open>str(event)\<close> for an event that is no
  \<^verbatim>\<open>Enum\<close> member, and for an \<^verbatim>\<open>Enum\<close> member its \<^verbatim>\<open>value\<close> as it is: a string only when
  that value is one. Parsing a celery descriptor puts the configured names into the target,
  and the defaults where a name is absent or empty.
\<close>

theorem celery_dispatch_sends_task:
  "fst (dispatch rt (EventRemoteCeleryDispatcher (EventRemoteCeleryTarget ty a evs q f))
          event args kwargs)
     = [SendTask \<lparr>task_app = a,
                  task_name = f,
                  task_args = event_value rt event # args,
                  task_kwargs = kwargs,
                  task_queue = q\<rparr>]
   \<and> parse_target rt (PDict [(''type'', PStr ''celery''), (''address'', PStr a)])
     = Inr (EventRemoteCeleryTarget celery a None (default_queue_name rt) (default_function_name rt))
   \<and> parse_target rt (PDict [(''type'', PStr ''celery''), (''address'', PStr a),
                              (''queue_name'', PStr q), (''function_name'', PStr f)])
     = Inr (EventRemoteCeleryTarget celery a None
          (if q = [] then default_queue_name rt else q)
          (if f = [] then default_function_name rt else f))
   \<and> event_value rt (Value (PStr s)) = PStr s
   \<and> event_value rt (Value v) = PStr (py_str rt v)
   \<and> event_value rt (EnumMember mixin cls name w) = w"
  by (simp add: dispatch_def celery_dispatch_def Let_def event_value_def py_str_def
      parse_target_def str_shorthand_def dict_get_def dict_get_default_def
      EventRemoteTargetType_getitem_def parse_typed_def new_EventRemoteCeleryTarget_def
      truthy_get_def string_field_def events_field_def)

section \<open>Emitting\<close>

text \<open>
  Claim C1, as stated, fails: with the celery module missing, \<^verbatim>\<open>emit\<close> on a handler whose
  one registered target is a celery target raises the \<^verbatim>\<open>Exception\<close> of the dispatcher's
  \<^verbatim>\<open>__init__\<close> itself, in the caller's thread.
\<close>

theorem emit_raises_synchronously:
  "fst (emit (example_runtime\<lparr>celery_installed := False\<rparr>) (Value (PStr ''order.created'')) [] []
         (snd (register (example_runtime\<lparr>celery_installed := False\<rparr>)
                 (PDict [(''type'', PStr ''celery''), (''address'', PStr ''redis://broker'')])
                 (class_body, init))))
     = Inl PyException"
  by (simp add: register_def parse_target_def str_shorthand_def dict_get_def dict_get_default_def
      EventRemoteTargetType_getitem_def parse_typed_def new_EventRemoteCeleryTarget_def
      truthy_get_def string_field_def events_field_def class_body_def init_def
      emit_def targets_def wants_def create_def EventRemoteCeleryDispatcher_init_def
      example_runtime_def)

text \<open>
  Claim C1, amended. \<^verbatim>\<open>emit\<close> raises in the caller's thread when a dispatcher cannot be
  created: at the first registered target that wants the event and for which \<^verbatim>\<open>create\<close>
  raises (\<^verbatim>\<open>NotImplementedError\<close> for a target of neither dispatcher class, the plain
  \<^verbatim>\<open>Exception\<close> when celery is not installed), \<^verbatim>\<open>emit\<close> raises that error, having
  retained a future for each wanted target before it and none from it on. It returns
  without raising when \<^verbatim>\<open>create\<close> succeeds for every target that wants the event. What the
  transports do never changes what \<^verbatim>\<open>emit\<close> returns or retains: an error of the dispatch
  call itself stays in its future.
\<close>

theorem emit_raises_creation_error:
  "(targets st = pre @ t # post \<and> (\<forall>p\<in>set pre. wants ev p \<longrightarrow> \<not> isl (create rt p))
      \<and> wants ev t \<and> create rt t = Inl e
    \<longrightarrow> emit rt ev args kw st =
          (Inl e, (fst st, (snd st)\<lparr>futures := futures (snd st) @
              map (\<lambda>p. submit (projr (create rt p)) ev args kw) (filter (wants ev) pre)\<rparr>))
        \<and> (e = NotImplementedError \<or> e = PyException))
   \<and> ((\<forall>p\<in>set (targets st). wants ev p \<longrightarrow> \<not> isl (create rt p))
        \<longrightarrow> fst (emit rt ev args kw st) = Inr ())
   \<and> emit (rt\<lparr>requests_post := rp, send_task := sk\<rparr>) ev args kw st = emit rt ev args kw st"
proof (intro conjI impI)
  assume h: "targets st = pre @ t # post \<and> (\<forall>p\<in>set pre. wants ev p \<longrightarrow> \<not> isl (create rt p))
      \<and> wants ev t \<and> create rt t = Inl e"
  then have "emit_loop rt ev args kw (pre @ t # post) (futures (snd st)) =
      (Inl e, futures (snd st) @
              map (\<lambda>p. submit (projr (create rt p)) ev args kw) (filter (wants ev) pre))"
    by (simp add: emit_loop_append emit_loop_all_created)
  with h show "emit rt ev args kw st =
          (Inl e, (fst st, (snd st)\<lparr>futures := futures (snd st) @
              map (\<lambda>p. submit (projr (create rt p)) ev args kw) (filter (wants ev) pre)\<rparr>))"
    by (simp add: emit_def)
  from h show "e = NotImplementedError \<or> e = PyException"
    by (blast dest: create_error)
next
  assume "\<forall>p\<in>set (targets st). wants ev p \<longrightarrow> \<not> isl (create rt p)"
  then show "fst (emit rt ev args kw st) = Inr ()"
    by (simp add: emit_def emit_loop_all_created)
next
  show "emit (rt\<lparr>requests_post := rp, send_task := sk\<rparr>) ev args kw st = emit rt ev args kw st"
    by (simp add: emit_def emit_loop_transport_irrelevant)
qed

theorem emit_raises_creation_error_witness:
  "emit (example_runtime\<lparr>celery_installed := False\<rparr>) (Value (PStr ''order.created'')) [] []
       (\<lparr>cls_targets = [target_a, target_q, target_b], cls_futures = []\<rparr>, init)
     = (Inl PyException,
        (\<lparr>cls_targets = [target_a, target_q, target_b], cls_futures = []\<rparr>,
         init\<lparr>futures :=
           [submit (EventRemoteURLDispatcher target_a) (Value (PStr ''order.created'')) [] []]\<rparr>))
   \<and> fst (emit example_runtime (Value (PStr ''order.created'')) [] []
       (\<lparr>cls_targets = [target_a, target_q, target_b], cls_futures = []\<rparr>, init)) = Inr ()"
  using emit_raises_creation_error
      [where st = "(\<lparr>cls_targets = [target_a, target_q, target_b], cls_futures = []\<rparr>, init)"
         and pre = "[target_a]" and t = target_q and post = "[target_b]"
         and rt = "example_runtime\<lparr>celery_installed := False\<rparr>"
         and ev = "Value (PStr ''order.created'')" and e = PyException and args = "[]" and kw = "[]"]
    emit_raises_creation_error
      [where st = "(\<lparr>cls_targets = [target_a, target_q, target_b], cls_futures = []\<rparr>, init)"
         and rt = example_runtime and ev = "Value (PStr ''order.created'')" and args = "[]" and kw = "[]"]
  by (simp add: targets_def init_def example_runtime_def)

text \<open>
  Claim C4, as stated, fails: with the celery module missing and a celery target registered
  before the url target \<^verbatim>\<open>http://b.test\<close> whose filter contains \<^verbatim>\<open>order.created\<close>,
  emitting \<^verbatim>\<open>order.created\<close> raises at the celery target and submits nothing for the url
  target.
\<close>

theorem emit_abort_skips_matching_target:
  "emit (example_runtime\<lparr>celery_installed := False\<rparr>) (Value (PStr ''order.created'')) [] []
     (snd (register (example_runtime\<lparr>celery_installed := False\<rparr>)
        (PDict [(''type'', PStr ''url''), (''address'', PStr ''http://b.test''),
                (''events'', PList [PStr ''order.created''])])
        (snd (register (example_runtime\<lparr>celery_installed := False\<rparr>)
           (PDict [(''type'', PStr ''celery''), (''address'', PStr ''redis://broker'')])
           (class_body, init)))))
   = (Inl PyException, (\<lparr>cls_targets = [target_q, target_b], cls_futures = []\<rparr>, init))
   \<and> futures init = []
   \<and> wants (Value (PStr ''order.created'')) target_b"
  by (simp add: register_def parse_target_def str_shorthand_def dict_get_def dict_get_default_def
      EventRemoteTargetType_getitem_def parse_typed_def new_EventRemoteCeleryTarget_def
      new_EventRemoteURLTarget_def truthy_get_def string_field_def events_field_def
      class_body_def init_def emit_def targets_def
      target_q_def [symmetric] target_b_def [symmetric] example_runtime_def)

text \<open>
  Claim C4, amended. Take any entry \<open>t\<close> of the registry, \<open>pre @ t # post\<close>. If \<open>t\<close> does not
  want the event (its \<^verbatim>\<open>events\<close> is a list and the event is not \<^verbatim>\<open>in\<close> it), \<^verbatim>\<open>emit\<close> submits
  nothing for it in any case: outcome and futures are those of the registry without \<open>t\<close>.
  If \<^verbatim>\<open>emit\<close> returns without raising, the futures it appends are those of \<open>pre\<close>, then
  exactly one for \<open>t\<close> when \<open>t\<close> wants the event (its \<^verbatim>\<open>events\<close> is absent or the event is
  \<^verbatim>\<open>in\<close> it) and none otherwise, then those of \<open>post\<close>. Being \<^verbatim>\<open>in\<close> the list is being equal
  to an element under \<^verbatim>\<open>==\<close>: strings by value, a member of an \<^verbatim>\<open>Enum\<close> with a mixed-in
  data type as its value, a member of a plain \<^verbatim>\<open>Enum\<close> to itself only, dicts whatever the
  order of their keys.
\<close>

theorem emit_filters_per_target:
  "(targets st = pre @ t # post \<and> \<not> wants ev t
      \<longrightarrow> fst (emit rt ev args kw st)
            = fst (emit rt ev args kw ((fst st)\<lparr>cls_targets := pre @ post\<rparr>, snd st))
        \<and> snd (snd (emit rt ev args kw st))
            = snd (snd (emit rt ev args kw ((fst st)\<lparr>cls_targets := pre @ post\<rparr>, snd st))))
   \<and> (targets st = pre @ t # post \<and> fst (emit rt ev args kw st) = Inr ()
      \<longrightarrow> futures (snd (snd (emit rt ev args kw st)))
            = futures (snd st)
              @ map (\<lambda>p. submit (projr (create rt p)) ev args kw) (filter (wants ev) pre)
              @ (if wants ev t then [submit (projr (create rt t)) ev args kw] else [])
              @ map (\<lambda>p. submit (projr (create rt p)) ev args kw) (filter (wants ev) post)
        \<and> (wants ev t \<longrightarrow> fut_target (submit (projr (create rt t)) ev args kw) = t))
   \<and> wants ev t
       = (case events t of None \<Rightarrow> True | Some evs \<Rightarrow> \<exists>e\<in>set evs. e = ev \<or> event_eq e ev)
   \<and> event_eq (Value (PStr a)) (Value (PStr b)) = (a = b)
   \<and> event_eq (Value (PStr a)) (EnumMember True cls name (PStr b)) = (a = b)
   \<and> event_eq (Value v) (EnumMember False cls name w) = False
   \<and> event_eq (EnumMember False cls name w) (EnumMember False cls' name' w')
       = (cls = cls' \<and> name = name')
   \<and> py_eq (PDict [(''a'', x), (''b'', y)]) (PDict [(''b'', y'), (''a'', x')])
       = (py_eq x x' \<and> py_eq y y')"
proof (intro conjI impI)
  assume h: "targets st = pre @ t # post \<and> \<not> wants ev t"
  then have "emit_loop rt ev args kw (targets st) (futures (snd st))
      = emit_loop rt ev args kw (pre @ post) (futures (snd st))"
    by (simp add: emit_loop_skip)
  then show "fst (emit rt ev args kw st)
            = fst (emit rt ev args kw ((fst st)\<lparr>cls_targets := pre @ post\<rparr>, snd st))"
    and "snd (snd (emit rt ev args kw st))
            = snd (snd (emit rt ev args kw ((fst st)\<lparr>cls_targets := pre @ post\<rparr>, snd st)))"
    by (simp_all add: emit_def targets_def split: prod.splits)
next
  assume h: "targets st = pre @ t # post \<and> fst (emit rt ev args kw st) = Inr ()"
  then have ok: "fst (emit_loop rt ev args kw (pre @ t # post) (futures (snd st))) = Inr ()"
    by (simp add: emit_def split: prod.splits)
  have all: "\<forall>p\<in>set (pre @ t # post). wants ev p \<longrightarrow> \<not> isl (create rt p)"
    using emit_loop_ok_created [OF ok] .
  from h show "futures (snd (snd (emit rt ev args kw st)))
            = futures (snd st)
              @ map (\<lambda>p. submit (projr (create rt p)) ev args kw) (filter (wants ev) pre)
              @ (if wants ev t then [submit (projr (create rt t)) ev args kw] else [])
              @ map (\<lambda>p. submit (projr (create rt p)) ev args kw) (filter (wants ev) post)"
    by (simp add: emit_def emit_loop_all_created [OF all])
  show "fut_target (submit (projr (create rt t)) ev args kw) = t" if w: "wants ev t"
  proof -
    from all w have "\<not> isl (create rt t)" by simp
    then show ?thesis
      by (auto simp: fut_target_def submit_def create_def EventRemoteCeleryDispatcher_init_def
          split: target.splits if_splits)
  qed
next
  show "wants ev t
       = (case events t of None \<Rightarrow> True | Some evs \<Rightarrow> \<exists>e\<in>set evs. e = ev \<or> event_eq e ev)"
    by (simp add: wants_def py_in_def split: option.splits)
next
  show "event_eq (Value (PStr a)) (Value (PStr b)) = (a = b)"
    and "event_eq (Value (PStr a)) (EnumMember True cls name (PStr b)) = (a = b)"
    and "event_eq (Value v) (EnumMember False cls name w) = False"
    and "event_eq (EnumMember False cls name w) (EnumMember False cls' name' w')
       = (cls = cls' \<and> name = name')"
    and "py_eq (PDict [(''a'', x), (''b'', y)]) (PDict [(''b'', y'), (''a'', x')])
       = (py_eq x x' \<and> py_eq y y')"
    by auto
qed

theorem emit_filters_per_target_witness:
  "futures (snd (snd (emit example_runtime (Value (PStr ''order.updated'')) [PInt 7] [(''id'', PInt 1)]
       (\<lparr>cls_targets = [target_a, target_b], cls_futures = []\<rparr>, init))))
     = [submit (EventRemoteURLDispatcher target_a) (Value (PStr ''order.updated'')) [PInt 7]
          [(''id'', PInt 1)]]
   \<and> futures (snd (snd (emit example_runtime (Value (PStr ''order.created'')) [PInt 7] [(''id'', PInt 1)]
       (\<lparr>cls_targets = [target_a, target_b], cls_futures = []\<rparr>, init))))
     = [submit (EventRemoteURLDispatcher target_a) (Value (PStr ''order.created'')) [PInt 7]
          [(''id'', PInt 1)],
        submit (EventRemoteURLDispatcher target_b) (Value (PStr ''order.created'')) [PInt 7]
          [(''id'', PInt 1)]]
   \<and> snd (snd (emit example_runtime (Value (PStr ''order.updated'')) [PInt 7] [(''id'', PInt 1)]
       (\<lparr>cls_targets = [target_a, target_b], cls_futures = []\<rparr>, init)))
     = snd (snd (emit example_runtime (Value (PStr ''order.updated'')) [PInt 7] [(''id'', PInt 1)]
       (\<lparr>cls_targets = [target_a], cls_futures = []\<rparr>, init)))
   \<and> futures (snd (snd (emit example_runtime
       (EnumMember True ''Topic'' ''CREATED'' (PStr ''order.created'')) [PInt 7] [(''id'', PInt 1)]
       (\<lparr>cls_targets = [target_a, target_b], cls_futures = []\<rparr>, init))))
     = [submit (EventRemoteURLDispatcher target_a)
          (EnumMember True ''Topic'' ''CREATED'' (PStr ''order.created'')) [PInt 7]
          [(''id'', PInt 1)],
        submit (EventRemoteURLDispatcher target_b)
          (EnumMember True ''Topic'' ''CREATED'' (PStr ''order.created'')) [PInt 7]
          [(''id'', PInt 1)]]"
proof -
  let ?st = "(\<lparr>cls_targets = [target_a, target_b], cls_futures = []\<rparr>, init)"
  let ?upd = "Value (PStr ''order.updated'')" and ?cre = "Value (PStr ''order.created'')"
  let ?mix = "EnumMember True ''Topic'' ''CREATED'' (PStr ''order.created'')"
  have split: "targets ?st = [target_a] @ target_b # []"
    by (simp add: targets_def)
  have ok: "fst (emit example_runtime ev [PInt 7] [(''id'', PInt 1)] ?st) = Inr ()" for ev
    by (simp add: emit_def targets_def)
  have no: "\<not> wants ?upd target_b"
    by simp
  note inst = emit_filters_per_target [where st = ?st and pre = "[target_a]" and t = target_b
      and post = "[]" and rt = example_runtime and args = "[PInt 7]" and kw = "[(''id'', PInt 1)]"]
  from inst [where ev = ?upd] split ok [of ?upd]
  have "futures (snd (snd (emit example_runtime ?upd [PInt 7] [(''id'', PInt 1)] ?st)))
      = futures (snd ?st)
        @ map (\<lambda>p. submit (projr (create example_runtime p)) ?upd [PInt 7] [(''id'', PInt 1)])
            (filter (wants ?upd) [target_a])
        @ (if wants ?upd target_b
           then [submit (projr (create example_runtime target_b)) ?upd [PInt 7] [(''id'', PInt 1)]]
           else [])
        @ map (\<lambda>p. submit (projr (create example_runtime p)) ?upd [PInt 7] [(''id'', PInt 1)])
            (filter (wants ?upd) [])"
    by blast
  then have one: "futures (snd (snd (emit example_runtime ?upd [PInt 7] [(''id'', PInt 1)] ?st)))
      = [submit (EventRemoteURLDispatcher target_a) ?upd [PInt 7] [(''id'', PInt 1)]]"
    by (simp add: init_def)
  from inst [where ev = ?cre] split ok [of ?cre]
  have "futures (snd (snd (emit example_runtime ?cre [PInt 7] [(''id'', PInt 1)] ?st)))
      = futures (snd ?st)
        @ map (\<lambda>p. submit (projr (create example_runtime p)) ?cre [PInt 7] [(''id'', PInt 1)])
            (filter (wants ?cre) [target_a])
        @ (if wants ?cre target_b
           then [submit (projr (create example_runtime target_b)) ?cre [PInt 7] [(''id'', PInt 1)]]
           else [])
        @ map (\<lambda>p. submit (projr (create example_runtime p)) ?cre [PInt 7] [(''id'', PInt 1)])
            (filter (wants ?cre) [])"
    by blast
  then have two: "futures (snd (snd (emit example_runtime ?cre [PInt 7] [(''id'', PInt 1)] ?st)))
      = [submit (EventRemoteURLDispatcher target_a) ?cre [PInt 7] [(''id'', PInt 1)],
         submit (EventRemoteURLDispatcher target_b) ?cre [PInt 7] [(''id'', PInt 1)]]"
    by (simp add: init_def)
  from inst [where ev = ?upd] split no
  have "snd (snd (emit example_runtime ?upd [PInt 7] [(''id'', PInt 1)] ?st))
      = snd (snd (emit example_runtime ?upd [PInt 7] [(''id'', PInt 1)]
          ((fst ?st)\<lparr>cls_targets := [target_a] @ []\<rparr>, snd ?st)))"
    by blast
  then have three: "snd (snd (emit example_runtime ?upd [PInt 7] [(''id'', PInt 1)] ?st))
      = snd (snd (emit example_runtime ?upd [PInt 7] [(''id'', PInt 1)]
          (\<lparr>cls_targets = [target_a], cls_futures = []\<rparr>, init)))"
    by simp
  from inst [where ev = ?mix] split ok [of ?mix]
  have "futures (snd (snd (emit example_runtime ?mix [PInt 7] [(''id'', PInt 1)] ?st)))
      = futures (snd ?st)
        @ map (\<lambda>p. submit (projr (create example_runtime p)) ?mix [PInt 7] [(''id'', PInt 1)])
            (filter (wants ?mix) [target_a])
        @ (if wants ?mix target_b
           then [submit (projr (create example_runtime target_b)) ?mix [PInt 7] [(''id'', PInt 1)]]
           else [])
        @ map (\<lambda>p. submit (projr (create example_runtime p)) ?mix [PInt 7] [(''id'', PInt 1)])
            (filter (wants ?mix) [])"
    by blast
  then have four: "futures (snd (snd (emit example_runtime ?mix [PInt 7] [(''id'', PInt 1)] ?st)))
      = [submit (EventRemoteURLDispatcher target_a) ?mix [PInt 7] [(''id'', PInt 1)],
         submit (EventRemoteURLDispatcher target_b) ?mix [PInt 7] [(''id'', PInt 1)]]"
    by (simp add: init_def)
  from one two three four show ?thesis
    by blast
qed

section \<open>Waiting, and what handlers share\<close>

text \<open>
  Claim C2 at a failing input. A handler retains two futures, the first for the web hook
  that cannot be reached, the second for the one that answers (they are what \<^verbatim>\<open>emit\<close>
  retains for the two url targets). \<^verbatim>\<open>wait_for_all\<close> raises the error of the first future, has
  waited for that future only, and leaves both futures retained:
  \<^verbatim>\<open>self.futures.clear()\<close> is not reached.
\<close>

theorem wait_for_all_error_keeps_futures:
  "wait_for_all example_runtime (class_body, init\<lparr>futures := [future_a, future_b]\<rparr>)
     = (Inl (TransportError ''unreachable''),
        (class_body, init\<lparr>futures := [future_a, future_b]\<rparr>))
   \<and> fst (wait_loop example_runtime [future_a, future_b]) = [future_a]
   \<and> snd (emit example_runtime (Value (PStr ''order.created'')) [] []
        (\<lparr>cls_targets = [target_a, target_b], cls_futures = []\<rparr>, init))
     = (\<lparr>cls_targets = [target_a, target_b], cls_futures = []\<rparr>,
        init\<lparr>futures := [future_a, future_b]\<rparr>)"
  by (simp add: wait_for_all_def example_result emit_def targets_def init_def
      future_a_def [symmetric] future_b_def [symmetric])

text \<open>
  Claim C3 at a failing input. One handler registers \<^verbatim>\<open>http://a.test\<close>. A second handler,
  built by \<^verbatim>\<open>__init__\<close> with the class attributes as the first one left them, finds that
  target in its own \<^verbatim>\<open>self.targets\<close>; and \<^verbatim>\<open>clear\<close> on the second handler empties the
  registry the first one reads. The futures are per handler: a new handler has none.
\<close>

theorem targets_shared_between_handlers:
  "targets (fst (snd (register example_runtime (PStr ''http://a.test'') (class_body, init))), init)
     = [target_a]
   \<and> targets (class_body, init) = []
   \<and> targets (fst (clear (\<lparr>cls_targets = [target_a], cls_futures = []\<rparr>, init)),
        init\<lparr>futures := [future_a]\<rparr>) = []
   \<and> futures init = []"
  by (simp add: register_def parse_target_def str_shorthand_def dict_get_def dict_get_default_def
      EventRemoteTargetType_getitem_def parse_typed_def new_EventRemoteURLTarget_def
      events_field_def class_body_def targets_def target_a_def init_def clear_def)

end
